theory Spec2Isabelle
  imports Complex_Main
begin

section \<open>Data model\<close>

text \<open>
  The scripts under \<^verbatim>\<open>langgraph/basics\<close> define arithmetic tools, wire them into small
  LangGraph graphs and read the messages a run returns.  Python integers are unbounded,
  so they are \<^typ>\<open>int\<close>.  A tool that raises is a value \<open>Inl e\<close> of a sum type.
\<close>

datatype py_error =
    ZeroDivisionError
  | OverflowError
  | TypeError
  | TransportError
  | InvalidGraph

text \<open>
  A tool returns an \<open>int\<close> (\<open>add\<close>, \<open>multiply\<close>) or a \<open>float\<close> (\<open>divide\<close>).
  \<open>PyFloat q\<close> stands for the binary64 number nearest to the rational \<open>q\<close>; the
  rounding itself is not represented.
\<close>

datatype py_value = PyInt int | PyFloat rat

text \<open>
  A tool-call request carries the tool's name, the keyword arguments (a JSON object, here
  an association list read with \<^const>\<open>map_of\<close>) and the call identifier.
\<close>

datatype tool_call =
  ToolCall (call_name: string) (call_args: "(string \<times> int) list") (call_id: string)

text \<open>
  The content of a tool result is the rendering of the value the tool returned, or an
  error text naming the tool that was asked for.
\<close>

datatype tool_content = ToolOutput py_value | ErrorText string

datatype message =
    SystemMessage string
  | HumanMessage string
  | AIMessage string "tool_call list"
  | ToolMessage tool_content string

fun is_AIMessage :: "message \<Rightarrow> bool" where
  "is_AIMessage (AIMessage c tcs) = True"
| "is_AIMessage m = False"

fun tool_calls :: "message \<Rightarrow> tool_call list" where
  "tool_calls (AIMessage c tcs) = tcs"
| "tool_calls m = []"

section \<open>The tools\<close>

text \<open>
  \<^verbatim>\<open>def multiply(a: int, b: int) -> int: return a * b\<close>
  (simple-agent.py, agent-memory.py, simple-tool-calling.py, create_react_agent.py)
\<close>

definition multiply :: "int \<Rightarrow> int \<Rightarrow> int" where
  "multiply a b = a * b"

text \<open>
  \<^verbatim>\<open>def add(a: int, b: int) -> int: return a + b\<close>
  (simple-agent.py, agent-memory.py, simple-tool-calling.py)
\<close>

definition add :: "int \<Rightarrow> int \<Rightarrow> int" where
  "add a b = a + b"

text \<open>
  \<^verbatim>\<open>def divide(a: int, b: int) -> float: return a / b\<close>
  (simple-agent.py, agent-memory.py).  Python's true division of two integers raises
  \<open>ZeroDivisionError\<close> for a zero divisor, raises \<open>OverflowError\<close> when the
  quotient rounds to a magnitude of \<open>2 ^ 1024\<close> or more, and otherwise returns the
  float nearest to the quotient.  The source has no guard of its own.
\<close>

definition float_overflows :: "rat \<Rightarrow> bool" where
  "float_overflows q = (2 ^ 1024 - 2 ^ 970 \<le> \<bar>q\<bar>)"

definition divide_py :: "int \<Rightarrow> int \<Rightarrow> py_error + py_value" where
  "divide_py a b =
     (if b = 0 then Inl ZeroDivisionError
      else if float_overflows (of_int a / of_int b) then Inl OverflowError
      else Inr (PyFloat (of_int a / of_int b)))"

text \<open>
  A registered tool: its name and the callable, which receives the keyword arguments of
  the request.  (The description, the function's docstring, is read by the chat model
  only and is left out.)
\<close>

record tool =
  tool_name :: string
  func :: "(string \<times> int) list \<Rightarrow> py_error + py_value"

text \<open>
  Modelled from the spec: invoking a registered tool is langchain's code (the
  \<^verbatim>\<open>@tool\<close> decorator, \<open>ToolNode\<close>'s wrapping of a plain function), not part of the
  repository.  Spec 3 and 6: a request carries an argument mapping and a tool has a
  callable signature with typed parameters.  Every tool here has the signature
  \<open>(a: int, b: int)\<close>: the callable is applied to the arguments named \<open>a\<close> and
  \<open>b\<close>, and a request that lacks one of them is a fault.
\<close>

definition call_kw :: "(int \<Rightarrow> int \<Rightarrow> py_error + py_value) \<Rightarrow> (string \<times> int) list \<Rightarrow> py_error + py_value" where
  "call_kw f kw =
     (case map_of kw ''a'' of
        None \<Rightarrow> Inl TypeError
      | Some a \<Rightarrow> (case map_of kw ''b'' of None \<Rightarrow> Inl TypeError | Some b \<Rightarrow> f a b))"

text \<open>simple-agent.py and agent-memory.py: \<^verbatim>\<open>@tool\<close>, \<^verbatim>\<open>@tool("add_numbers")\<close>, \<^verbatim>\<open>@tool\<close>.\<close>

definition multiply_tool :: tool where
  "multiply_tool =
     \<lparr>tool_name = ''multiply'', func = call_kw (\<lambda>a b. Inr (PyInt (multiply a b)))\<rparr>"

definition add_tool :: tool where
  "add_tool =
     \<lparr>tool_name = ''add_numbers'', func = call_kw (\<lambda>a b. Inr (PyInt (add a b)))\<rparr>"

definition divide_tool :: tool where
  "divide_tool =
     \<lparr>tool_name = ''divide'', func = call_kw divide_py\<rparr>"

text \<open>\<^verbatim>\<open>tools = [add, multiply, divide]\<close>\<close>

definition tools :: "tool list" where
  "tools = [add_tool, multiply_tool, divide_tool]"

text \<open>simple-tool-calling.py registers the plain functions: \<^verbatim>\<open>ToolNode([add, multiply])\<close>.\<close>

definition plain_tools :: "tool list" where
  "plain_tools =
     [\<lparr>tool_name = ''add'', func = call_kw (\<lambda>a b. Inr (PyInt (add a b)))\<rparr>,
      \<lparr>tool_name = ''multiply'', func = call_kw (\<lambda>a b. Inr (PyInt (multiply a b)))\<rparr>]"

section \<open>Reading the final answer (create\_react\_agent.py)\<close>

text \<open>
  \<^verbatim>\<open>
  final_answer = None
  for message in reversed(messages):
      if isinstance(message, AIMessage):
          final_answer = message.content
          break
  \<close>
  The loop is a recursion over the reversed list; \<open>break\<close> ends it at the first hit.
\<close>

fun final_answer_loop :: "message list \<Rightarrow> string option" where
  "final_answer_loop [] = None"
| "final_answer_loop (AIMessage c tcs # ms) = Some c"
| "final_answer_loop (m # ms) = final_answer_loop ms"

definition final_answer :: "message list \<Rightarrow> string option" where
  "final_answer messages = final_answer_loop (rev messages)"

text \<open>The contents of the assistant messages of a list, in the list's order.\<close>

fun ai_contents :: "message list \<Rightarrow> string list" where
  "ai_contents [] = []"
| "ai_contents (AIMessage c tcs # ms) = c # ai_contents ms"
| "ai_contents (m # ms) = ai_contents ms"

section \<open>The graphs (simple-agent.py, agent-memory.py, simple-tool-calling.py)\<close>

text \<open>
  A node of a graph is one of LangGraph's two markers \<open>START\<close> and \<open>END\<close> or a
  node registered under a name.  \<open>MessagesState\<close> has the single key \<open>messages\<close>, so a
  state is the message list; a node function returns the messages to append (or raises).
\<close>

datatype node = START | END | Node string

type_synonym node_fn = "message list \<Rightarrow> py_error + message list"

text \<open>
  Modelled from the spec: the builder class \<open>StateGraph\<close> is LangGraph's and not part
  of the repository.  Spec 1 and 2: a graph is a composition of the library's primitives
  (state container, nodes, edge, conditional edge).  The record keeps what the builder
  calls of a script declare: the registered nodes, the fixed edges and the conditional
  edges, each in the order of the calls.
\<close>

record graph =
  nodes :: "(string \<times> node_fn) list"
  edges :: "(node \<times> node) list"
  branches :: "(node \<times> (message list \<Rightarrow> node)) list"

text \<open>
  Modelled from the spec: \<^verbatim>\<open>StateGraph(MessagesState)\<close>, LangGraph's constructor (not part
  of the repository): a builder with nothing declared yet.
\<close>

definition StateGraph :: graph where
  "StateGraph = \<lparr>nodes = [], edges = [], branches = []\<rparr>"

text \<open>
  Modelled from the spec: LangGraph's \<open>add_node\<close> (not part of the repository) registers
  a node function under a name (spec 2: the Agent Node and the Tool Executor).
\<close>

definition add_node :: "string \<Rightarrow> node_fn \<Rightarrow> graph \<Rightarrow> graph" where
  "add_node name f builder = builder\<lparr>nodes := nodes builder @ [(name, f)]\<rparr>"

text \<open>
  Modelled from the spec: LangGraph's \<open>add_edge\<close> (not part of the repository) declares
  that control passes from the first node to the second (spec 2: control flows).
\<close>

definition add_edge :: "node \<Rightarrow> node \<Rightarrow> graph \<Rightarrow> graph" where
  "add_edge a b builder = builder\<lparr>edges := edges builder @ [(a, b)]\<rparr>"

text \<open>
  Modelled from the spec: LangGraph's \<open>add_conditional_edges\<close> (not part of the
  repository) declares that after the node the path function picks the next node from
  the state (spec 2: the Router).
\<close>

definition add_conditional_edges :: "node \<Rightarrow> (message list \<Rightarrow> node) \<Rightarrow> graph \<Rightarrow> graph" where
  "add_conditional_edges a path builder = builder\<lparr>branches := branches builder @ [(a, path)]\<rparr>"

text \<open>
  The chat model with the tools bound (\<^verbatim>\<open>llm.bind_tools(...)\<close>) is a remote service: a
  parameter of the model.  It answers a message list with one assistant message (its
  text and its tool-call requests) or fails.
\<close>

type_synonym chat_model = "message list \<Rightarrow> py_error + string \<times> tool_call list"

definition sys_msg :: message where
  "sys_msg = SystemMessage
     ''You are a helpful assistant tasked with performing arithmetic on a set of inputs.''"

text \<open>
  \<^verbatim>\<open>
  def assistant(state: MessagesState):
      return {"messages": [llm_with_tools.invoke([sys_msg] + state["messages"])]}
  \<close>
\<close>

definition assistant :: "chat_model \<Rightarrow> node_fn" where
  "assistant llm_with_tools state =
     (case llm_with_tools (sys_msg # state) of
        Inl e \<Rightarrow> Inl e
      | Inr (c, tcs) \<Rightarrow> Inr [AIMessage c tcs])"

text \<open>
  \<^verbatim>\<open>
  def tool_calling_llm(state: MessagesState):
      return {"messages": [llm_with_tools.invoke(state["messages"])]}
  \<close>
\<close>

definition tool_calling_llm :: "chat_model \<Rightarrow> node_fn" where
  "tool_calling_llm llm_with_tools state =
     (case llm_with_tools state of
        Inl e \<Rightarrow> Inl e
      | Inr (c, tcs) \<Rightarrow> Inr [AIMessage c tcs])"

subsection \<open>The prebuilt router and tool executor\<close>

text \<open>
  Modelled from the spec: \<open>tools_condition\<close> is imported from \<open>langgraph.prebuilt\<close>
  and its code is not part of the repository.  Spec 4.1: given the current history,
  inspect the last message; if it is an assistant message carrying one or more pending
  tool-call requests, return the identifier of the Tool Executor state; otherwise return
  the identifier of the terminal state.  (simple-tool-calling.py describes it the same
  way in a comment, and simple-agent.py keeps a commented-out condition of this shape.)
\<close>

definition tools_condition :: "message list \<Rightarrow> node" where
  "tools_condition state =
     (case rev state of
        [] \<Rightarrow> END
      | m # earlier \<Rightarrow>
          (case m of
             AIMessage c tcs \<Rightarrow> (if tcs = [] then END else Node ''tools'')
           | _ \<Rightarrow> END))"

text \<open>
  Modelled from the spec: how \<open>ToolNode\<close> (imported from \<open>langgraph.prebuilt\<close>, not
  part of the repository) answers one request.  Spec 4.2 and 7: the request is resolved
  by exact name match against the registry; if no match exists the result is a Tool
  Result whose content is an error string; a matched tool is executed and its result is
  tagged with the originating call identifier.  The unknown name is the single local
  recovery path, so a fault of a matched tool is passed on.
\<close>

definition run_tool_call :: "tool list \<Rightarrow> tool_call \<Rightarrow> py_error + message" where
  "run_tool_call registry c =
     (case find (\<lambda>t. tool_name t = call_name c) registry of
        None \<Rightarrow> Inr (ToolMessage (ErrorText (call_name c)) (call_id c))
      | Some t \<Rightarrow>
          (case func t (call_args c) of
             Inl e \<Rightarrow> Inl e
           | Inr v \<Rightarrow> Inr (ToolMessage (ToolOutput v) (call_id c))))"

text \<open>
  Modelled from the spec: \<open>ToolNode\<close>'s pass over the requests of a turn (not part of
  the repository).  Spec 4.2: one Tool Result per request, in request order.  The first
  fault ends the pass.
\<close>

fun run_tool_calls :: "tool list \<Rightarrow> tool_call list \<Rightarrow> py_error + message list" where
  "run_tool_calls registry [] = Inr []"
| "run_tool_calls registry (c # cs) =
     (case run_tool_call registry c of
        Inl e \<Rightarrow> Inl e
      | Inr r \<Rightarrow>
          (case run_tool_calls registry cs of
             Inl e \<Rightarrow> Inl e
           | Inr rs \<Rightarrow> Inr (r # rs)))"

text \<open>
  Modelled from the spec: the requests \<open>ToolNode\<close> reads from the state (not part of the
  repository).  Spec 2 and 4.1: the pending requests are those of the latest model
  response, the last message of the history.
\<close>

definition pending_calls :: "message list \<Rightarrow> tool_call list" where
  "pending_calls state = (case rev state of [] \<Rightarrow> [] | m # earlier \<Rightarrow> tool_calls m)"

text \<open>
  Modelled from the spec: the node function \<^verbatim>\<open>ToolNode(tools)\<close> (not part of the
  repository).  Spec 2: it executes the requested tool calls against the registry; its
  results are what the run appends to the history.
\<close>

definition ToolNode :: "tool list \<Rightarrow> node_fn" where
  "ToolNode registry state = run_tool_calls registry (pending_calls state)"

subsection \<open>The three graphs, call by call\<close>

text \<open>
  simple-agent.py:
  \<^verbatim>\<open>
  builder = StateGraph(MessagesState)
  builder.add_node("assistant", assistant)
  builder.add_node("tools", ToolNode(tools))
  builder.add_edge(START, "assistant")
  builder.add_conditional_edges("assistant", tools_condition)
  builder.add_edge("tools", "assistant")
  \<close>
\<close>

definition simple_agent_graph :: "chat_model \<Rightarrow> graph" where
  "simple_agent_graph llm_with_tools =
     (let builder = StateGraph;
          builder = add_node ''assistant'' (assistant llm_with_tools) builder;
          builder = add_node ''tools'' (ToolNode tools) builder;
          builder = add_edge START (Node ''assistant'') builder;
          builder = add_conditional_edges (Node ''assistant'') tools_condition builder;
          builder = add_edge (Node ''tools'') (Node ''assistant'') builder
      in builder)"

text \<open>agent-memory.py makes the same calls (and compiles with a checkpointer).\<close>

definition agent_memory_graph :: "chat_model \<Rightarrow> graph" where
  "agent_memory_graph llm_with_tools =
     (let builder = StateGraph;
          builder = add_node ''assistant'' (assistant llm_with_tools) builder;
          builder = add_node ''tools'' (ToolNode tools) builder;
          builder = add_edge START (Node ''assistant'') builder;
          builder = add_conditional_edges (Node ''assistant'') tools_condition builder;
          builder = add_edge (Node ''tools'') (Node ''assistant'') builder
      in builder)"

text \<open>
  simple-tool-calling.py:
  \<^verbatim>\<open>
  builder = StateGraph(MessagesState)
  builder.add_node("tool_calling_llm", tool_calling_llm)
  builder.add_node("tools", ToolNode([add, multiply]))
  builder.add_edge(START, "tool_calling_llm")
  builder.add_conditional_edges("tool_calling_llm", tools_condition)
  builder.add_edge("tools", END)
  \<close>
\<close>

definition simple_tool_calling_graph :: "chat_model \<Rightarrow> graph" where
  "simple_tool_calling_graph llm_with_tools =
     (let builder = StateGraph;
          builder = add_node ''tool_calling_llm'' (tool_calling_llm llm_with_tools) builder;
          builder = add_node ''tools'' (ToolNode plain_tools) builder;
          builder = add_edge START (Node ''tool_calling_llm'') builder;
          builder = add_conditional_edges (Node ''tool_calling_llm'') tools_condition builder;
          builder = add_edge (Node ''tools'') END builder
      in builder)"

subsection \<open>Running a graph\<close>

text \<open>
  Modelled from the spec: how a compiled graph follows the declared edges is LangGraph
  code that is not part of the repository.  Spec 2: after the Agent Node the Router
  decides, after the Tool Executor control returns along its edge.  A conditional edge
  of the node decides from the state, otherwise the node's fixed edge does.
\<close>

definition next_node :: "graph \<Rightarrow> node \<Rightarrow> message list \<Rightarrow> node option" where
  "next_node g n state =
     (case map_of (branches g) n of
        Some path \<Rightarrow> Some (path state)
      | None \<Rightarrow> map_of (edges g) n)"

text \<open>
  Modelled from the spec: one transition of the compiled graph's run loop
  (\<open>builder.compile()\<close>, \<open>graph.invoke\<close>), LangGraph code that is not part of the
  repository.  Spec 2 and 3: control flows from the start to a node, the node's result
  is appended to the history (append-only during one run) and an edge gives the next
  node; a fault of a node ends the run.
\<close>

definition step :: "graph \<Rightarrow> node \<Rightarrow> message list \<Rightarrow> py_error + node \<times> message list" where
  "step g n state =
     (case n of
        START \<Rightarrow>
          (case next_node g START state of
             None \<Rightarrow> Inl InvalidGraph
           | Some n' \<Rightarrow> Inr (n', state))
      | END \<Rightarrow> Inr (END, state)
      | Node name \<Rightarrow>
          (case map_of (nodes g) name of
             None \<Rightarrow> Inl InvalidGraph
           | Some f \<Rightarrow>
               (case f state of
                  Inl e \<Rightarrow> Inl e
                | Inr update \<Rightarrow>
                    (case next_node g n (state @ update) of
                       None \<Rightarrow> Inl InvalidGraph
                     | Some n' \<Rightarrow> Inr (n', state @ update)))))"

text \<open>
  What is known of a run after a number of steps: it has finished with a history, has
  stopped on a fault, or is still at a node.
\<close>

datatype outcome = Finished "message list" | Crashed py_error | Pending node "message list"

text \<open>
  Modelled from the spec: the run loop (LangGraph code, not part of the repository).
  Spec 2 and 3: transitions are taken until the terminal state is reached; no iteration
  cap is enforced.  The loop may go on for ever, so the function takes the number of
  steps to take (\<open>fuel\<close>) and answers \<open>Pending\<close> when they are used up before the
  terminal state is reached.
\<close>

fun run :: "graph \<Rightarrow> nat \<Rightarrow> node \<Rightarrow> message list \<Rightarrow> outcome" where
  "run g 0 n state = (if n = END then Finished state else Pending n state)"
| "run g (Suc fuel) n state =
     (if n = END then Finished state
      else (case step g n state of
              Inl e \<Rightarrow> Crashed e
            | Inr (n', state') \<Rightarrow> run g fuel n' state'))"

text \<open>
  Modelled from the spec: \<^verbatim>\<open>graph.invoke({"messages": messages})\<close> (LangGraph code, not
  part of the repository).  Spec 2: control starts at \<open>START\<close> with the given history.
\<close>

definition invoke :: "graph \<Rightarrow> nat \<Rightarrow> message list \<Rightarrow> outcome" where
  "invoke g fuel messages = run g fuel START messages"

subsection \<open>Tool results and the requests they answer\<close>

text \<open>The call identifiers of all tool-call requests of a history, in order.\<close>

fun request_ids :: "message list \<Rightarrow> string list" where
  "request_ids [] = []"
| "request_ids (m # ms) = map call_id (tool_calls m) @ request_ids ms"

text \<open>
  Walking a history with the identifiers requested so far (\<open>seen\<close>): every Tool Result
  carries an identifier that some earlier request carries.
\<close>

fun results_have_request :: "string list \<Rightarrow> message list \<Rightarrow> bool" where
  "results_have_request seen [] = True"
| "results_have_request seen (ToolMessage c i # ms) =
     (i \<in> set seen \<and> results_have_request seen ms)"
| "results_have_request seen (m # ms) =
     results_have_request (seen @ map call_id (tool_calls m)) ms"

text \<open>The same walk, asking for exactly one earlier request with the identifier.\<close>

fun results_have_one_request :: "string list \<Rightarrow> message list \<Rightarrow> bool" where
  "results_have_one_request seen [] = True"
| "results_have_one_request seen (ToolMessage c i # ms) =
     (count_list seen i = 1 \<and> results_have_one_request seen ms)"
| "results_have_one_request seen (m # ms) =
     results_have_one_request (seen @ map call_id (tool_calls m)) ms"

subsection \<open>A chat model that always asks for a tool\<close>

text \<open>
  A possible behaviour of the remote model: whatever the history, it answers with one
  request to \<open>add_numbers\<close>, under the same call identifier.
\<close>

definition add_request :: tool_call where
  "add_request = ToolCall ''add_numbers'' [(''a'', 3), (''b'', 4)] ''call_1''"

definition always_add :: chat_model where
  "always_add history = Inr ('''', [add_request])"

section \<open>Properties of the tools\<close>

lemma call_kw_ab: "call_kw f [(''a'', a), (''b'', b)] = f a b"
  by (simp add: call_kw_def)

text \<open>
  C4: for any two integers \<open>a\<close> and \<open>b\<close>, \<open>add(a, b) = a + b\<close> and
  \<open>multiply(a, b) = a * b\<close>; the same holds for the tools as registered in each script,
  called with the arguments \<open>{a, b}\<close>.
\<close>

theorem tools_add_multiply:
  "add a b = a + b \<and> multiply a b = a * b
   \<and> func add_tool [(''a'', a), (''b'', b)] = Inr (PyInt (a + b))
   \<and> func multiply_tool [(''a'', a), (''b'', b)] = Inr (PyInt (a * b))
   \<and> map (\<lambda>t. func t [(''a'', a), (''b'', b)]) plain_tools
       = [Inr (PyInt (a + b)), Inr (PyInt (a * b))]"
  by (simp add: add_def multiply_def add_tool_def multiply_tool_def plain_tools_def call_kw_ab)

text \<open>
  C5 (as the code has it): \<open>divide(a, b)\<close> is Python's true division.  For \<open>b \<noteq> 0\<close> it
  returns the quotient \<open>a / b\<close> as a float (an \<open>OverflowError\<close> when the quotient is
  beyond the float range); for \<open>b = 0\<close> it raises \<open>ZeroDivisionError\<close>: the fault is
  not guarded.
\<close>

theorem divide_quotient_or_fault:
  "divide_py a b =
     (if b = 0 then Inl ZeroDivisionError
      else if float_overflows (of_int a / of_int b) then Inl OverflowError
      else Inr (PyFloat (of_int a / of_int b)))
   \<and> isl (divide_py a b) = (b = 0 \<or> float_overflows (of_int a / of_int b))
   \<and> divide_py a 0 = Inl ZeroDivisionError
   \<and> func divide_tool [(''a'', a), (''b'', 0)] = Inl ZeroDivisionError"
  by (simp add: divide_py_def divide_tool_def call_kw_ab)

text \<open>
  C5 as claimed fails at \<open>b = 0\<close>: \<open>divide(1, 0)\<close> is the fault itself, also through
  the registered tool; no error value is defined in its place.
\<close>

theorem divide_by_zero_unguarded:
  "divide_py 1 0 = Inl ZeroDivisionError
   \<and> func divide_tool [(''a'', 1), (''b'', 0)] = Inl ZeroDivisionError"
  by (simp add: divide_py_def divide_tool_def call_kw_ab)

section \<open>Properties of the final answer\<close>

lemma ai_contents_append: "ai_contents (xs @ ys) = ai_contents xs @ ai_contents ys"
  by (induction xs rule: ai_contents.induct) simp_all

lemma final_answer_loop_rev:
  "final_answer_loop (rev ms) =
     (if ai_contents ms = [] then None else Some (last (ai_contents ms)))"
proof (induction ms rule: rev_induct)
  case Nil
  show ?case by simp
next
  case (snoc m ms)
  then show ?case
    by (cases m) (simp_all add: ai_contents_append)
qed

lemma ai_contents_empty: "(ai_contents ms = []) = (filter is_AIMessage ms = [])"
  by (induction ms rule: ai_contents.induct) simp_all

text \<open>
  C10: \<open>final_answer\<close> is the content of the last assistant message of the list, and
  \<open>None\<close> when the list has no assistant message.
\<close>

theorem final_answer_last_ai:
  "final_answer messages =
     (if ai_contents messages = [] then None else Some (last (ai_contents messages)))
   \<and> (ai_contents messages = []) = (filter is_AIMessage messages = [])"
  unfolding final_answer_def
  using final_answer_loop_rev [of messages] ai_contents_empty [of messages] by simp

section \<open>Properties of the graphs\<close>

subsection \<open>What the builder calls record\<close>

lemma simple_agent_graph_parts:
  "nodes (simple_agent_graph llm) = [(''assistant'', assistant llm), (''tools'', ToolNode tools)]"
  "edges (simple_agent_graph llm) = [(START, Node ''assistant''), (Node ''tools'', Node ''assistant'')]"
  "branches (simple_agent_graph llm) = [(Node ''assistant'', tools_condition)]"
  by (simp_all add: simple_agent_graph_def StateGraph_def add_node_def add_edge_def
      add_conditional_edges_def)

lemma agent_memory_graph_parts:
  "nodes (agent_memory_graph llm) = [(''assistant'', assistant llm), (''tools'', ToolNode tools)]"
  "edges (agent_memory_graph llm) = [(START, Node ''assistant''), (Node ''tools'', Node ''assistant'')]"
  "branches (agent_memory_graph llm) = [(Node ''assistant'', tools_condition)]"
  by (simp_all add: agent_memory_graph_def StateGraph_def add_node_def add_edge_def
      add_conditional_edges_def)

lemma simple_tool_calling_graph_parts:
  "nodes (simple_tool_calling_graph llm) =
     [(''tool_calling_llm'', tool_calling_llm llm), (''tools'', ToolNode plain_tools)]"
  "edges (simple_tool_calling_graph llm) = [(START, Node ''tool_calling_llm''), (Node ''tools'', END)]"
  "branches (simple_tool_calling_graph llm) = [(Node ''tool_calling_llm'', tools_condition)]"
  by (simp_all add: simple_tool_calling_graph_def StateGraph_def add_node_def add_edge_def
      add_conditional_edges_def)

lemma tools_condition_last:
  "tools_condition h = (if h \<noteq> [] \<and> tool_calls (last h) \<noteq> [] then Node ''tools'' else END)"
proof (cases h rule: rev_cases)
  case Nil
  then show ?thesis by (simp add: tools_condition_def)
next
  case (snoc ms m)
  then show ?thesis by (cases m) (simp_all add: tools_condition_def)
qed

lemma tools_condition_snoc_ai:
  "tools_condition (h @ [AIMessage c tcs]) = (if tcs = [] then END else Node ''tools'')"
  by (simp add: tools_condition_def)

lemma run_tool_call_unknown:
  "call_name c \<notin> tool_name ` set registry \<Longrightarrow>
   run_tool_call registry c = Inr (ToolMessage (ErrorText (call_name c)) (call_id c))"
proof -
  assume "call_name c \<notin> tool_name ` set registry"
  then have "find (\<lambda>t. tool_name t = call_name c) registry = None"
    by (fastforce simp: find_None_iff image_iff)
  then show ?thesis by (simp add: run_tool_call_def)
qed

lemma run_tool_calls_append:
  "run_tool_calls registry (xs @ ys) =
     (case run_tool_calls registry xs of
        Inl e \<Rightarrow> Inl e
      | Inr r1 \<Rightarrow> (case run_tool_calls registry ys of Inl e \<Rightarrow> Inl e | Inr r2 \<Rightarrow> Inr (r1 @ r2)))"
  by (induction xs) (simp_all split: sum.splits)

lemma pending_calls_snoc: "pending_calls (h @ [m]) = tool_calls m"
  by (simp add: pending_calls_def)

lemma step_tools_simple_agent:
  "step (simple_agent_graph llm) (Node ''tools'') h =
     (case run_tool_calls tools (pending_calls h) of
        Inl e \<Rightarrow> Inl e
      | Inr rs \<Rightarrow> Inr (Node ''assistant'', h @ rs))"
  by (simp add: step_def next_node_def simple_agent_graph_parts ToolNode_def split: sum.splits)

lemma step_tools_agent_memory:
  "step (agent_memory_graph llm) (Node ''tools'') h =
     (case run_tool_calls tools (pending_calls h) of
        Inl e \<Rightarrow> Inl e
      | Inr rs \<Rightarrow> Inr (Node ''assistant'', h @ rs))"
  by (simp add: step_def next_node_def agent_memory_graph_parts ToolNode_def split: sum.splits)

lemma step_start_simple_agent:
  "step (simple_agent_graph llm) START h = Inr (Node ''assistant'', h)"
  by (simp add: step_def next_node_def simple_agent_graph_parts)

lemma step_start_agent_memory:
  "step (agent_memory_graph llm) START h = Inr (Node ''assistant'', h)"
  by (simp add: step_def next_node_def agent_memory_graph_parts)

lemma run_add_request:
  "run_tool_call tools add_request = Inr (ToolMessage (ToolOutput (PyInt 7)) ''call_1'')"
  by (simp add: run_tool_call_def tools_def add_tool_def add_request_def call_kw_def add_def)

lemma step_assistant_always_add:
  "step (simple_agent_graph always_add) (Node ''assistant'') h
     = Inr (Node ''tools'', h @ [AIMessage '''' [add_request]])"
  "step (agent_memory_graph always_add) (Node ''assistant'') h
     = Inr (Node ''tools'', h @ [AIMessage '''' [add_request]])"
  by (simp_all add: step_def next_node_def simple_agent_graph_parts agent_memory_graph_parts
      assistant_def always_add_def tools_condition_snoc_ai)

lemma step_tools_always_add:
  "pending_calls h = [add_request] \<Longrightarrow>
   step (simple_agent_graph llm) (Node ''tools'') h
     = Inr (Node ''assistant'', h @ [ToolMessage (ToolOutput (PyInt 7)) ''call_1''])"
  "pending_calls h = [add_request] \<Longrightarrow>
   step (agent_memory_graph llm) (Node ''tools'') h
     = Inr (Node ''assistant'', h @ [ToolMessage (ToolOutput (PyInt 7)) ''call_1''])"
  by (simp_all add: step_tools_simple_agent step_tools_agent_memory run_add_request)

lemma always_add_never_ends:
  assumes "g = simple_agent_graph always_add \<or> g = agent_memory_graph always_add"
  shows "n = START \<or> n = Node ''assistant'' \<or> (n = Node ''tools'' \<and> pending_calls h = [add_request])
    \<Longrightarrow> \<exists>n' h'. run g fuel n h = Pending n' h' \<and> n' \<noteq> END"
proof (induction fuel arbitrary: n h)
  case 0
  then show ?case by auto
next
  case (Suc fuel)
  from Suc.prems consider
    (start) "n = START" | (agent) "n = Node ''assistant''"
    | (tools) "n = Node ''tools''" "pending_calls h = [add_request]"
    by blast
  then show ?case
  proof cases
    case start
    have "\<exists>n' h'. run g fuel (Node ''assistant'') h = Pending n' h' \<and> n' \<noteq> END"
      by (rule Suc.IH) simp
    with start assms show ?thesis
      by (auto simp: step_start_simple_agent step_start_agent_memory)
  next
    case agent
    have "\<exists>n' h'. run g fuel (Node ''tools'') (h @ [AIMessage '''' [add_request]]) = Pending n' h' \<and> n' \<noteq> END"
      by (rule Suc.IH) (simp add: pending_calls_snoc)
    with agent assms show ?thesis
      by (auto simp: step_assistant_always_add)
  next
    case tools
    have "\<exists>n' h'. run g fuel (Node ''assistant'') (h @ [ToolMessage (ToolOutput (PyInt 7)) ''call_1''])
        = Pending n' h' \<and> n' \<noteq> END"
      by (rule Suc.IH) simp
    with tools assms show ?thesis
      by (auto simp: step_tools_always_add)
  qed
qed

subsection \<open>The router\<close>

text \<open>
  C1: the router sends control to the \<open>tools\<close> node exactly when the last message of the
  history carries at least one tool-call request, and to \<open>END\<close> otherwise.  It is the
  conditional edge after the assistant node of each graph, so a step of that node ends at
  \<open>tools\<close> exactly when the message just appended has a request; \<open>tools\<close> is the name
  under which each script registers its tool executor.
\<close>

theorem router_iff_pending:
  "(tools_condition h = Node ''tools'') = (h \<noteq> [] \<and> tool_calls (last h) \<noteq> [])
   \<and> (tools_condition h = END) = (h = [] \<or> tool_calls (last h) = [])
   \<and> next_node (simple_agent_graph llm) (Node ''assistant'') h = Some (tools_condition h)
   \<and> next_node (agent_memory_graph llm) (Node ''assistant'') h = Some (tools_condition h)
   \<and> next_node (simple_tool_calling_graph llm) (Node ''tool_calling_llm'') h
       = Some (tools_condition h)
   \<and> step (simple_agent_graph llm) (Node ''assistant'') h =
       (case llm (sys_msg # h) of
          Inl e \<Rightarrow> Inl e
        | Inr (c, tcs) \<Rightarrow> Inr (if tcs = [] then END else Node ''tools'', h @ [AIMessage c tcs]))
   \<and> step (simple_tool_calling_graph llm) (Node ''tool_calling_llm'') h =
       (case llm h of
          Inl e \<Rightarrow> Inl e
        | Inr (c, tcs) \<Rightarrow> Inr (if tcs = [] then END else Node ''tools'', h @ [AIMessage c tcs]))
   \<and> map_of (nodes (simple_agent_graph llm)) ''tools'' = Some (ToolNode tools)
   \<and> map_of (nodes (agent_memory_graph llm)) ''tools'' = Some (ToolNode tools)
   \<and> map_of (nodes (simple_tool_calling_graph llm)) ''tools'' = Some (ToolNode plain_tools)"
  by (simp add: tools_condition_last next_node_def step_def simple_agent_graph_parts
      agent_memory_graph_parts simple_tool_calling_graph_parts assistant_def tool_calling_llm_def
      split: sum.splits prod.splits)

subsection \<open>The edge that leaves the tool executor\<close>

text \<open>
  C2 (as the code has it): in simple-agent.py and agent-memory.py the edge that leaves
  \<open>tools\<close> goes back to \<open>assistant\<close>, no fixed edge leads to \<open>END\<close>, and the only
  conditional edge is the router's after \<open>assistant\<close>.  In simple-tool-calling.py the
  edge that leaves \<open>tools\<close> goes to \<open>END\<close>.
\<close>

theorem tools_edge_targets:
  "edges (simple_agent_graph llm) = [(START, Node ''assistant''), (Node ''tools'', Node ''assistant'')]
   \<and> edges (agent_memory_graph llm) = [(START, Node ''assistant''), (Node ''tools'', Node ''assistant'')]
   \<and> edges (simple_tool_calling_graph llm) = [(START, Node ''tool_calling_llm''), (Node ''tools'', END)]
   \<and> map fst (branches (simple_agent_graph llm)) = [Node ''assistant'']
   \<and> map fst (branches (agent_memory_graph llm)) = [Node ''assistant'']
   \<and> next_node (simple_agent_graph llm) (Node ''tools'') h = Some (Node ''assistant'')
   \<and> next_node (agent_memory_graph llm) (Node ''tools'') h = Some (Node ''assistant'')
   \<and> next_node (simple_tool_calling_graph llm) (Node ''tools'') h = Some END"
  by (simp add: next_node_def simple_agent_graph_parts
      agent_memory_graph_parts simple_tool_calling_graph_parts)

text \<open>
  C2 as claimed fails for simple-tool-calling.py: \<^verbatim>\<open>builder.add_edge("tools", END)\<close> ends
  the run after the tool executor; control does not go back to \<open>tool_calling_llm\<close>.
\<close>

theorem tools_edge_to_end_counterexample:
  "edges (simple_tool_calling_graph always_add)
     = [(START, Node ''tool_calling_llm''), (Node ''tools'', END)]
   \<and> next_node (simple_tool_calling_graph always_add) (Node ''tools'')
        [HumanMessage ''Hello, what is 10 plus 2?'',
         AIMessage '''' [ToolCall ''add'' [(''a'', 10), (''b'', 2)] ''call_1'']]
       = Some END
   \<and> END \<noteq> Node ''tool_calling_llm''"
  by (simp add: next_node_def simple_tool_calling_graph_parts)

subsection \<open>A request for a tool that is not registered\<close>

text \<open>
  C3: a request whose name matches no registered tool gets a Tool Result whose content is
  the error text, under the request's call identifier, and no fault; when the other
  requests of the turn run through, the step of \<open>tools\<close> appends the results and hands
  control to \<open>assistant\<close> (simple-agent.py, agent-memory.py).
\<close>

theorem unknown_tool_error_result:
  assumes "call_name c \<notin> tool_name ` set tools"
    and "run_tool_calls tools before = Inr r1"
    and "run_tool_calls tools after = Inr r2"
  shows "run_tool_call tools c = Inr (ToolMessage (ErrorText (call_name c)) (call_id c))
    \<and> step (simple_agent_graph llm) (Node ''tools'') (h @ [AIMessage t (before @ c # after)])
        = Inr (Node ''assistant'',
               (h @ [AIMessage t (before @ c # after)])
               @ r1 @ ToolMessage (ErrorText (call_name c)) (call_id c) # r2)
    \<and> step (agent_memory_graph llm) (Node ''tools'') (h @ [AIMessage t (before @ c # after)])
        = Inr (Node ''assistant'',
               (h @ [AIMessage t (before @ c # after)])
               @ r1 @ ToolMessage (ErrorText (call_name c)) (call_id c) # r2)"
proof -
  have one: "run_tool_call tools c = Inr (ToolMessage (ErrorText (call_name c)) (call_id c))"
    using assms(1) by (rule run_tool_call_unknown)
  have all: "run_tool_calls tools (before @ c # after)
      = Inr (r1 @ ToolMessage (ErrorText (call_name c)) (call_id c) # r2)"
    using assms(2,3) one by (simp add: run_tool_calls_append)
  show ?thesis
    using one all
    by (simp only: step_tools_simple_agent step_tools_agent_memory pending_calls_snoc
        tool_calls.simps sum.case simp_thms)
qed

theorem unknown_tool_error_result_witness:
  "step (simple_agent_graph always_add) (Node ''tools'')
     ([HumanMessage ''Subtract 4 from 7''] @
      [AIMessage '''' ([add_request] @ ToolCall ''subtract'' [(''a'', 7), (''b'', 4)] ''call_2'' # [])])
   = Inr (Node ''assistant'',
          [HumanMessage ''Subtract 4 from 7'',
           AIMessage '''' [add_request, ToolCall ''subtract'' [(''a'', 7), (''b'', 4)] ''call_2''],
           ToolMessage (ToolOutput (PyInt 7)) ''call_1'',
           ToolMessage (ErrorText ''subtract'') ''call_2''])"
proof -
  have a: "call_name (ToolCall ''subtract'' [(''a'', 7), (''b'', 4)] ''call_2'') \<notin> tool_name ` set tools"
    by (simp add: tools_def add_tool_def multiply_tool_def divide_tool_def)
  have b: "run_tool_calls tools [add_request] = Inr [ToolMessage (ToolOutput (PyInt 7)) ''call_1'']"
    by (simp add: run_tool_call_def tools_def add_tool_def add_request_def call_kw_def add_def)
  have c: "run_tool_calls tools [] = Inr []" by simp
  show ?thesis
    using unknown_tool_error_result [OF a b c, of always_add "[HumanMessage ''Subtract 4 from 7'']" "''''"]
    by simp
qed

subsection \<open>Tool results answer earlier requests\<close>

lemma request_ids_append: "request_ids (xs @ ys) = request_ids xs @ request_ids ys"
  by (induction xs) simp_all

lemma results_have_request_append:
  "results_have_request seen (xs @ ys) =
     (results_have_request seen xs \<and> results_have_request (seen @ request_ids xs) ys)"
proof (induction xs arbitrary: seen)
  case Nil
  show ?case by simp
next
  case (Cons m ms)
  then show ?case by (cases m) auto
qed

lemma pending_ids_requested: "set (map call_id (pending_calls h)) \<subseteq> set (request_ids h)"
proof (cases h rule: rev_cases)
  case Nil
  then show ?thesis by (simp add: pending_calls_def)
next
  case (snoc ms m)
  then show ?thesis by (simp add: pending_calls_snoc request_ids_append)
qed

lemma run_tool_call_result:
  "run_tool_call registry c = Inr r \<Longrightarrow> \<exists>content. r = ToolMessage content (call_id c)"
  by (auto simp: run_tool_call_def split: option.splits sum.splits)

lemma run_tool_calls_results:
  "run_tool_calls registry cs = Inr rs \<Longrightarrow> set (map call_id cs) \<subseteq> set seen \<Longrightarrow>
   results_have_request seen rs"
proof (induction cs arbitrary: rs)
  case Nil
  then show ?case by simp
next
  case (Cons c cs)
  from Cons.prems(1) obtain r rs' where
    r: "run_tool_call registry c = Inr r" and rs': "run_tool_calls registry cs = Inr rs'"
    and rs: "rs = r # rs'"
    by (auto split: sum.splits)
  from run_tool_call_result [OF r] obtain content where "r = ToolMessage content (call_id c)" ..
  moreover have "results_have_request seen rs'"
    using Cons.IH [OF rs'] Cons.prems(2) by simp
  ultimately show ?case using rs Cons.prems(2) by simp
qed

lemma ToolNode_update:
  "ToolNode registry h = Inr update \<Longrightarrow> results_have_request (request_ids h) update"
  by (simp add: ToolNode_def run_tool_calls_results [OF _ pending_ids_requested])

lemma assistant_update:
  "assistant llm h = Inr update \<Longrightarrow> results_have_request seen update"
  by (auto simp: assistant_def split: sum.splits)

lemma tool_calling_llm_update:
  "tool_calling_llm llm h = Inr update \<Longrightarrow> results_have_request seen update"
  by (auto simp: tool_calling_llm_def split: sum.splits)

lemma graph_node_update:
  assumes "g \<in> {simple_agent_graph llm, agent_memory_graph llm, simple_tool_calling_graph llm}"
    and "map_of (nodes g) name = Some f" and "f h = Inr update"
  shows "results_have_request (request_ids h) update"
  using assms
  by (auto simp: simple_agent_graph_parts agent_memory_graph_parts
      simple_tool_calling_graph_parts
      dest: ToolNode_update assistant_update tool_calling_llm_update split: if_splits)

lemma step_keeps_requests:
  assumes "g \<in> {simple_agent_graph llm, agent_memory_graph llm, simple_tool_calling_graph llm}"
    and "step g n h = Inr (n', h')" and "results_have_request [] h"
  shows "results_have_request [] h'"
proof (cases n)
  case START
  then show ?thesis using assms(2,3) by (auto simp: step_def split: option.splits)
next
  case END
  then show ?thesis using assms(2,3) by (auto simp: step_def)
next
  case (Node name)
  with assms(2) obtain f update where
    f: "map_of (nodes g) name = Some f" and u: "f h = Inr update" and h': "h' = h @ update"
    by (auto simp: step_def split: option.splits sum.splits)
  from graph_node_update [OF assms(1) f u] assms(3) h'
  show ?thesis by (simp add: results_have_request_append)
qed

lemma run_keeps_requests:
  assumes "g \<in> {simple_agent_graph llm, agent_memory_graph llm, simple_tool_calling_graph llm}"
  shows "results_have_request [] h \<Longrightarrow>
    run g fuel n h = Finished h' \<or> run g fuel n h = Pending n' h' \<Longrightarrow>
    results_have_request [] h'"
proof (induction fuel arbitrary: n h)
  case 0
  then show ?case by (auto split: if_splits)
next
  case (Suc fuel)
  show ?case
  proof (cases "n = END")
    case True
    with Suc.prems show ?thesis by simp
  next
    case False
    with Suc.prems(2) obtain n1 h1 where
      st: "step g n h = Inr (n1, h1)"
      and rest: "run g fuel n1 h1 = Finished h' \<or> run g fuel n1 h1 = Pending n' h'"
      by (auto split: sum.splits)
    from step_keeps_requests [OF assms st Suc.prems(1)] have "results_have_request [] h1" .
    then show ?thesis using rest by (rule Suc.IH)
  qed
qed

lemma count_list_distinct: "distinct xs \<Longrightarrow> x \<in> set xs \<Longrightarrow> count_list xs x = 1"
  by (induction xs) auto

lemma one_request_if_distinct:
  "results_have_request seen h \<Longrightarrow> distinct (seen @ request_ids h) \<Longrightarrow>
   results_have_one_request seen h"
proof (induction seen h rule: results_have_request.induct)
  case (1 seen)
  show ?case by simp
next
  case (2 seen c i ms)
  then show ?case by (simp add: count_list_distinct)
qed simp_all

text \<open>
  C7 (as the code has it): started from a history in which every Tool Result answers an
  earlier request (the scripts start from one human message), every history a run of one
  of the three graphs passes through has that property: the call identifier of each Tool
  Result is that of at least one earlier Tool Call Request.  It is that of exactly one
  when the call identifiers of the history's requests are pairwise distinct.
\<close>

theorem results_answer_requests:
  assumes "g \<in> {simple_agent_graph llm, agent_memory_graph llm, simple_tool_calling_graph llm}"
    and "results_have_request [] h0"
    and "invoke g fuel h0 = Finished h \<or> invoke g fuel h0 = Pending n h"
  shows "results_have_request [] h
    \<and> (distinct (request_ids h) \<longrightarrow> results_have_one_request [] h)"
proof -
  have "results_have_request [] h"
    using run_keeps_requests [OF assms(1,2)] assms(3) unfolding invoke_def by blast
  then show ?thesis using one_request_if_distinct [of "[]" h] by simp
qed

theorem results_answer_requests_witness:
  "invoke (simple_agent_graph always_add) 3 [HumanMessage ''Add 3 and 4'']
    = Pending (Node ''assistant'')
       [HumanMessage ''Add 3 and 4'',
        AIMessage '''' [add_request], ToolMessage (ToolOutput (PyInt 7)) ''call_1'']
   \<and> results_have_request []
       [HumanMessage ''Add 3 and 4'',
        AIMessage '''' [add_request], ToolMessage (ToolOutput (PyInt 7)) ''call_1'']
   \<and> results_have_one_request []
       [HumanMessage ''Add 3 and 4'',
        AIMessage '''' [add_request], ToolMessage (ToolOutput (PyInt 7)) ''call_1'']"
proof -
  have run3: "invoke (simple_agent_graph always_add) 3 [HumanMessage ''Add 3 and 4'']
    = Pending (Node ''assistant'')
       [HumanMessage ''Add 3 and 4'',
        AIMessage '''' [add_request], ToolMessage (ToolOutput (PyInt 7)) ''call_1'']"
    by (simp add: invoke_def eval_nat_numeral step_start_simple_agent step_assistant_always_add
      step_tools_always_add pending_calls_def)
  have g: "simple_agent_graph always_add \<in> {simple_agent_graph always_add,
      agent_memory_graph always_add, simple_tool_calling_graph always_add}"
    by simp
  have h0: "results_have_request [] [HumanMessage ''Add 3 and 4'']" by simp
  have d: "distinct (request_ids [HumanMessage ''Add 3 and 4'',
        AIMessage '''' [add_request], ToolMessage (ToolOutput (PyInt 7)) ''call_1''])"
    by simp
  show ?thesis
    using results_answer_requests [OF g h0 disjI2, OF run3] d run3 by simp
qed

lemma invoke5:
  "invoke (simple_agent_graph always_add) 5 [HumanMessage ''Add 3 and 4'']
    = Pending (Node ''assistant'')
       [HumanMessage ''Add 3 and 4'',
        AIMessage '''' [add_request], ToolMessage (ToolOutput (PyInt 7)) ''call_1'',
        AIMessage '''' [add_request], ToolMessage (ToolOutput (PyInt 7)) ''call_1'']"
  by (simp add: invoke_def eval_nat_numeral step_start_simple_agent step_assistant_always_add
      step_tools_always_add pending_calls_def)

text \<open>
  C7 as claimed fails when the model repeats a call identifier: after two rounds the
  second Tool Result's identifier is carried by two earlier requests.
\<close>

theorem repeated_call_id_counterexample:
  "invoke (simple_agent_graph always_add) 5 [HumanMessage ''Add 3 and 4'']
    = Pending (Node ''assistant'')
       [HumanMessage ''Add 3 and 4'',
        AIMessage '''' [add_request], ToolMessage (ToolOutput (PyInt 7)) ''call_1'',
        AIMessage '''' [add_request], ToolMessage (ToolOutput (PyInt 7)) ''call_1'']
   \<and> \<not> results_have_one_request []
       [HumanMessage ''Add 3 and 4'',
        AIMessage '''' [add_request], ToolMessage (ToolOutput (PyInt 7)) ''call_1'',
        AIMessage '''' [add_request], ToolMessage (ToolOutput (PyInt 7)) ''call_1'']"
  by (simp add: invoke5 add_request_def)

subsection \<open>A run that never ends\<close>

text \<open>
  Whatever the model, as long as each of its responses carries a request, a run of the
  simple-agent.py or agent-memory.py graph does not finish: the router never picks
  \<open>END\<close>, and the edge that leaves \<open>tools\<close> goes back to \<open>assistant\<close>.
\<close>

lemma no_finish_while_requests:
  assumes g: "g = simple_agent_graph llm \<or> g = agent_memory_graph llm"
    and llm: "\<And>history c tcs. llm history = Inr (c, tcs) \<Longrightarrow> tcs \<noteq> []"
  shows "n \<in> {START, Node ''assistant'', Node ''tools''} \<Longrightarrow> run g fuel n h \<noteq> Finished h'"
proof (induction fuel arbitrary: n h)
  case 0
  then show ?case by auto
next
  case (Suc fuel)
  have next_ok: "n1 \<in> {START, Node ''assistant'', Node ''tools''}"
    if "step g n h = Inr (n1, h1)" for n1 h1
    using that Suc.prems g llm
    by (auto simp: step_start_simple_agent step_start_agent_memory step_tools_simple_agent
        step_tools_agent_memory step_def next_node_def simple_agent_graph_parts
        agent_memory_graph_parts assistant_def tools_condition_snoc_ai
        split: sum.splits if_splits prod.splits)
  show ?case
  proof (cases "step g n h")
    case (Inl e)
    with Suc.prems show ?thesis by auto
  next
    case (Inr p)
    obtain n1 h1 where p: "p = (n1, h1)" by (cases p)
    from next_ok Inr p have "n1 \<in> {START, Node ''assistant'', Node ''tools''}" by simp
    then have "run g fuel n1 h1 \<noteq> Finished h'" by (rule Suc.IH)
    with Inr p Suc.prems show ?thesis by auto
  qed
qed

text \<open>
  C8: nothing bounds the loop.  With the model that asks for \<open>add_numbers\<close> in every
  response, a run of the simple-agent.py or agent-memory.py graph is still at a node
  other than \<open>END\<close> after any number of steps, from any initial messages: it neither
  finishes nor stops on a fault.
\<close>

theorem agent_loop_uncapped:
  "(\<forall>history. \<exists>c tcs. always_add history = Inr (c, tcs) \<and> tcs \<noteq> [])
   \<and> (\<forall>fuel messages. \<exists>n h.
         invoke (simple_agent_graph always_add) fuel messages = Pending n h \<and> n \<noteq> END)
   \<and> (\<forall>fuel messages. \<exists>n h.
         invoke (agent_memory_graph always_add) fuel messages = Pending n h \<and> n \<noteq> END)"
  unfolding invoke_def
  using always_add_never_ends [of "simple_agent_graph always_add" START]
    always_add_never_ends [of "agent_memory_graph always_add" START]
  by (simp add: always_add_def)

end
